theory Spec2Isabelle
  imports Complex_Main "HOL-Library.While_Combinator"
begin

section \<open>Applying and separating aspects: the investigation scripts\<close>

text \<open>
  The scripts decide whether the angular relation of two bodies to an aspect is
  applying (the orb shrinks over the next 0.1 day) or separating. Python floats are
  modelled as exact reals, so the theorems below are about the arithmetic the code
  writes down, not about IEEE rounding; the literal \<open>0.1\<close> is the real \<open>1/10\<close>.

  The scripts themselves compute in IEEE doubles. Rounding can change the outcome of a
  comparison only where the two sides are within rounding distance of each other: at
  a tie between two targets (separation 0), for a step too small to change the
  separation, and at the boundary values of the loops. The statements about the
  classifications are therefore of two kinds: equalities between methods that perform
  the same operations on the same operands, and statements on the domain the scripts
  use (longitudes in [0, 360), the five aspects, an orb of at most 8 degrees), where
  the compared values are far apart or kept apart by an explicit margin.
\<close>

subsection \<open>Data\<close>

text \<open>
  \<open>PlanetPosition\<close> and \<open>Aspect\<close> come from \<open>horary_engine.models\<close>; the functions
  modelled here read only \<open>longitude\<close>, \<open>speed\<close> and \<open>degrees\<close>. The records are
  extensible, so the other fields of the classes may be present and are ignored.
\<close>

record PlanetPosition =
  longitude :: real
  speed :: real

record Aspect =
  degrees :: real

text \<open>\<open>min\<close> of an empty sequence raises \<open>ValueError\<close> in Python.\<close>

datatype error = ValueError

text \<open>
  The local variables of a classification at its \<open>return\<close>: the normalised signed
  separation, the target chosen, the orb against it, the relative speed, the
  separation projected 0.1 day ahead and the orb of that projection against the same
  target.
\<close>

record trend =
  separation :: real
  closest_target :: real
  current_orb :: real
  relative_speed :: real
  future_separation :: real
  future_orb :: real

subsection \<open>Normalisation to -180 .. +180\<close>

text \<open>\<^verbatim>\<open>while x > 180: x -= 360\<close>\<close>

function wrap_down :: "real \<Rightarrow> real" where
  "wrap_down x = (if 180 < x then wrap_down (x - 360) else x)"
  by pat_completeness auto
termination
  by (relation "measure (\<lambda>x. nat \<lceil>x\<rceil>)") auto

text \<open>\<^verbatim>\<open>while x < -180: x += 360\<close>\<close>

function wrap_up :: "real \<Rightarrow> real" where
  "wrap_up x = (if x < - 180 then wrap_up (x + 360) else x)"
  by pat_completeness auto
termination
  by (relation "measure (\<lambda>x. nat \<lceil>- x\<rceil>)") auto

text \<open>The two loops in sequence, as every "Normalize" block of the scripts has them.\<close>

definition normalize_signed :: "real \<Rightarrow> real" where
  "normalize_signed x = wrap_up (wrap_down x)"

subsection \<open>Targets and the closest target\<close>

text \<open>
  \<^verbatim>\<open>targets = [d, -d]\<close>, extended by \<^verbatim>\<open>[d - 360, -d + 360]\<close> unless \<open>d\<close> is 0 or 180.
\<close>

definition aspect_targets :: "real \<Rightarrow> real list" where
  "aspect_targets d =
     (let targets = [d, - d]
      in if d \<noteq> 0 \<and> d \<noteq> 180 then targets @ [d - 360, - d + 360] else targets)"

text \<open>
  Python's \<open>min(xs, key=k)\<close> walks the sequence once and replaces the best item only
  by one whose key is strictly smaller, so the first of several minimal items wins.
\<close>

fun min_from :: "('a \<Rightarrow> real) \<Rightarrow> 'a \<Rightarrow> 'a list \<Rightarrow> 'a" where
  "min_from key best [] = best"
| "min_from key best (x # xs) = min_from key (if key x < key best then x else best) xs"

fun py_min :: "('a \<Rightarrow> real) \<Rightarrow> 'a list \<Rightarrow> error + 'a" where
  "py_min key [] = Inl ValueError"
| "py_min key (x # xs) = Inr (min_from key x xs)"

subsection \<open>The authoritative method (investigate\_moon\_aspects.py)\<close>

definition authoritative_trend ::
  "'a PlanetPosition_scheme \<Rightarrow> 'b PlanetPosition_scheme \<Rightarrow> 'c Aspect_scheme \<Rightarrow> error + trend" where
  "authoritative_trend moon_pos planet_pos aspect_type =
     (let current_sep = normalize_signed (longitude moon_pos - longitude planet_pos);
          targets = aspect_targets (degrees aspect_type)
      in case py_min (\<lambda>t. \<bar>current_sep - t\<bar>) targets of
           Inl e \<Rightarrow> Inl e
         | Inr closest \<Rightarrow>
             (let orb = \<bar>current_sep - closest\<bar>;
                  rel = speed moon_pos - speed planet_pos;
                  future_sep = normalize_signed (current_sep + rel * 0.1)
              in Inr \<lparr>separation = current_sep, closest_target = closest,
                      current_orb = orb, relative_speed = rel,
                      future_separation = future_sep,
                      future_orb = \<bar>future_sep - closest\<bar>\<rparr>))"

text \<open>\<^verbatim>\<open>return future_orb < current_orb\<close>\<close>

definition calculate_authoritative_applying ::
  "'a PlanetPosition_scheme \<Rightarrow> 'b PlanetPosition_scheme \<Rightarrow> 'c Aspect_scheme \<Rightarrow> error + bool" where
  "calculate_authoritative_applying moon_pos planet_pos aspect_type =
     map_sum id (\<lambda>r. future_orb r < current_orb r)
       (authoritative_trend moon_pos planet_pos aspect_type)"

subsection \<open>The enhanced method as simulated (simple\_moon\_investigation.py)\<close>

text \<open>
  The body with the larger \<open>|speed|\<close> leads; on a tie of the absolute speeds the
  \<open>else\<close> branch makes the planet lead.
\<close>

definition current_system_trend :: "real \<Rightarrow> real \<Rightarrow> real \<Rightarrow> real \<Rightarrow> real \<Rightarrow> error + trend" where
  "current_system_trend moon_lon planet_lon moon_speed planet_speed aspect_degrees =
     (let (faster_lon, slower_lon, faster_speed, slower_speed) =
            (if \<bar>moon_speed\<bar> > \<bar>planet_speed\<bar>
             then (moon_lon, planet_lon, moon_speed, planet_speed)
             else (planet_lon, moon_lon, planet_speed, moon_speed));
          sep = normalize_signed (faster_lon - slower_lon);
          targets = aspect_targets aspect_degrees
      in case py_min (\<lambda>t. \<bar>sep - t\<bar>) targets of
           Inl e \<Rightarrow> Inl e
         | Inr closest \<Rightarrow>
             (let orb = \<bar>sep - closest\<bar>;
                  time_increment = 0.1;
                  future_sep = normalize_signed (sep + (faster_speed - slower_speed) * time_increment)
              in Inr \<lparr>separation = sep, closest_target = closest,
                      current_orb = orb, relative_speed = faster_speed - slower_speed,
                      future_separation = future_sep,
                      future_orb = \<bar>future_sep - closest\<bar>\<rparr>))"

definition analyze_current_system_logic :: "real \<Rightarrow> real \<Rightarrow> real \<Rightarrow> real \<Rightarrow> real \<Rightarrow> error + bool" where
  "analyze_current_system_logic moon_lon planet_lon moon_speed planet_speed aspect_degrees =
     map_sum id (\<lambda>r. future_orb r < current_orb r)
       (current_system_trend moon_lon planet_lon moon_speed planet_speed aspect_degrees)"

subsection \<open>The derivative method inside analyze\_aspect\_logic\<close>

text \<open>
  "Method 2" of the loop body of \<open>analyze_aspect_logic\<close>, as a function of the loop's
  variables. The projected separation \<open>future_moon_to_planet\<close> is used as it is: this
  block has no second pair of normalisation loops. The function \<open>analyze_aspect_logic\<close>
  below calls it on the pairs of its own chart that pass the orb guard, and on nothing
  else.
\<close>

definition derivative_trend :: "real \<Rightarrow> real \<Rightarrow> real \<Rightarrow> real \<Rightarrow> real \<Rightarrow> error + trend" where
  "derivative_trend moon_lon planet_lon moon_speed planet_speed aspect_degrees =
     (let rel = moon_speed - planet_speed;
          time_increment = 0.1;
          moon_to_planet = normalize_signed (moon_lon - planet_lon);
          targets = aspect_targets aspect_degrees
      in case py_min (\<lambda>t. \<bar>moon_to_planet - t\<bar>) targets of
           Inl e \<Rightarrow> Inl e
         | Inr closest \<Rightarrow>
             (let current_dist = \<bar>moon_to_planet - closest\<bar>;
                  future_moon_to_planet = moon_to_planet + rel * time_increment
              in Inr \<lparr>separation = moon_to_planet, closest_target = closest,
                      current_orb = current_dist, relative_speed = rel,
                      future_separation = future_moon_to_planet,
                      future_orb = \<bar>future_moon_to_planet - closest\<bar>\<rparr>))"

definition derivative_applying :: "real \<Rightarrow> real \<Rightarrow> real \<Rightarrow> real \<Rightarrow> real \<Rightarrow> error + bool" where
  "derivative_applying moon_lon planet_lon moon_speed planet_speed aspect_degrees =
     map_sum id (\<lambda>r. future_orb r < current_orb r)
       (derivative_trend moon_lon planet_lon moon_speed planet_speed aspect_degrees)"

subsection \<open>analyze\_aspect\_logic: the AE-016 chart, the aspects and the orb guard\<close>







text \<open>
  One entry of \<open>results\<close>. The keys \<open>separation\<close> and \<open>relative_speed\<close> of the dictionary
  carry the prefix \<open>result_\<close> here, and the local \<open>separation\<close> is written \<open>sep\<close>, since
  both names are fields of the record of locals above.
\<close>

record aspect_result =
  planet :: string
  aspect :: string
  result_separation :: real
  orb :: real
  result_relative_speed :: real
  simple_method :: bool
  derivative_method :: bool
  current_system :: bool
  moon_longitude :: real
  planet_longitude :: real
  moon_speed :: real
  planet_speed :: real





section \<open>Properties of the normalisation loops\<close>

declare wrap_down.simps [simp del] wrap_up.simps [simp del]

lemma wrap_down_le: "wrap_down x \<le> 180"
  by (induction x rule: wrap_down.induct) (subst wrap_down.simps, simp)

lemma wrap_down_gt: "180 < x \<Longrightarrow> - 180 < wrap_down x"
proof (induction x rule: wrap_down.induct)
  case (1 x)
  show ?case
  proof (cases "180 < x - 360")
    case True
    with 1 show ?thesis by (subst wrap_down.simps) simp
  next
    case False
    with 1 show ?thesis by (subst wrap_down.simps, subst wrap_down.simps) simp
  qed
qed

lemma wrap_down_id: "x \<le> 180 \<Longrightarrow> wrap_down x = x"
  by (subst wrap_down.simps) simp

lemma wrap_up_id: "- 180 \<le> x \<Longrightarrow> wrap_up x = x"
  by (subst wrap_up.simps) simp

lemma wrap_up_neg: "wrap_up (- x) = - wrap_down x"
proof (induction x rule: wrap_down.induct)
  case (1 x)
  show ?case
  proof (cases "180 < x")
    case True
    then have "wrap_up (- x) = wrap_up (- (x - 360))"
      by (subst wrap_up.simps) simp
    with True 1 show ?thesis by (subst wrap_down.simps) simp
  next
    case False
    then show ?thesis by (simp add: wrap_down_id wrap_up_id)
  qed
qed

lemma wrap_down_neg: "wrap_down (- x) = - wrap_up x"
  using wrap_up_neg [of "- x"] by simp

lemma wrap_up_ge: "- 180 \<le> wrap_up x"
  using wrap_down_le [of "- x"] by (simp add: wrap_down_neg)

lemma wrap_up_lt: "x < - 180 \<Longrightarrow> wrap_up x < 180"
  using wrap_down_gt [of "- x"] by (simp add: wrap_down_neg)

lemma normalize_signed_cases:
  "normalize_signed x = (if 180 < x then wrap_down x else wrap_up x)"
proof (cases "180 < x")
  case True
  then have "- 180 \<le> wrap_down x" using wrap_down_gt [of x] by simp
  with True show ?thesis by (simp add: normalize_signed_def wrap_up_id)
next
  case False
  then show ?thesis by (simp add: normalize_signed_def wrap_down_id)
qed

lemma normalize_signed_id: "- 180 \<le> x \<Longrightarrow> x \<le> 180 \<Longrightarrow> normalize_signed x = x"
  by (simp add: normalize_signed_def wrap_down_id wrap_up_id)

lemma normalize_signed_bounds: "- 180 \<le> normalize_signed x \<and> normalize_signed x \<le> 180"
proof (cases "180 < x")
  case True
  then show ?thesis
    using wrap_down_le [of x] wrap_down_gt [of x] by (simp add: normalize_signed_cases)
next
  case False
  show ?thesis
  proof (cases "x < - 180")
    case True
    then show ?thesis
      using wrap_up_ge [of x] wrap_up_lt [of x] by (simp add: normalize_signed_cases)
  next
    case False
    with \<open>\<not> 180 < x\<close> show ?thesis by (simp add: normalize_signed_cases wrap_up_id)
  qed
qed

lemma normalize_signed_idem: "normalize_signed (normalize_signed x) = normalize_signed x"
  using normalize_signed_bounds [of x] by (simp add: normalize_signed_id)


lemma wrap_down_shift: "\<exists>k::int. wrap_down x = x + 360 * of_int k"
proof (induction x rule: wrap_down.induct)
  case (1 x)
  show ?case
  proof (cases "180 < x")
    case True
    with 1 obtain k :: int where "wrap_down (x - 360) = x - 360 + 360 * of_int k" by blast
    then have "wrap_down x = x + 360 * of_int (k - 1)"
      using True by (subst wrap_down.simps) simp
    then show ?thesis by blast
  next
    case False
    then have "wrap_down x = x + 360 * of_int 0" by (simp add: wrap_down_id)
    then show ?thesis by blast
  qed
qed

lemma normalize_signed_shift: "\<exists>k::int. normalize_signed x = x + 360 * of_int k"
proof (cases "180 < x")
  case True
  then show ?thesis using wrap_down_shift [of x] by (simp add: normalize_signed_cases)
next
  case False
  obtain k :: int where "wrap_down (- x) = - x + 360 * of_int k"
    using wrap_down_shift [of "- x"] by blast
  then have "wrap_up x = x + 360 * of_int (- k)" by (simp add: wrap_down_neg)
  with False show ?thesis unfolding normalize_signed_cases by (metis (full_types))
qed

lemma normalize_signed_periodic:
  assumes "\<bar>normalize_signed a\<bar> < 180"
  shows "normalize_signed (a + 360 * of_int k) = normalize_signed a"
proof -
  obtain i :: int where i: "normalize_signed a = a + 360 * of_int i"
    using normalize_signed_shift by blast
  obtain j :: int where j: "normalize_signed (a + 360 * of_int k) = a + 360 * of_int k + 360 * of_int j"
    using normalize_signed_shift by blast
  have "normalize_signed (a + 360 * of_int k) - normalize_signed a = 360 * of_int (k + j - i)"
    by (simp add: i j)
  moreover have "\<bar>normalize_signed (a + 360 * of_int k) - normalize_signed a\<bar> < 360"
    using assms normalize_signed_bounds [of "a + 360 * of_int k"] by linarith
  ultimately have "\<bar>360 * (of_int (k + j - i) :: real)\<bar> < 360" by simp
  then have "\<bar>of_int (k + j - i) :: real\<bar> < 1" by (simp add: abs_mult)
  then have "k + j - i = 0" by linarith
  then show ?thesis by (simp add: i j)
qed

section \<open>Properties of the target list and of min\<close>

lemma py_min_aspect_targets:
  "py_min key (aspect_targets d) =
     Inr (if d \<noteq> 0 \<and> d \<noteq> 180 then min_from key d [- d, d - 360, - d + 360]
          else min_from key d [- d])"
  by (simp add: aspect_targets_def)

lemma min_from_keep: "\<forall>y\<in>set xs. \<not> key y < key x \<Longrightarrow> min_from key x xs = x"
  by (induction xs) auto

lemma min_from_take: "key y < key x \<Longrightarrow> min_from key x (y # ys) = min_from key y ys"
  by simp

lemma min_from_first:
  "\<exists>pre post. x # xs = pre @ min_from key x xs # post
     \<and> (\<forall>u\<in>set pre. key (min_from key x xs) < key u)
     \<and> (\<forall>u\<in>set post. key (min_from key x xs) \<le> key u)"
proof (induction xs arbitrary: x)
  case Nil
  have "[x] = [] @ min_from key x [] # []" by simp
  then show ?case by fastforce
next
  case (Cons y ys)
  define b where "b = (if key y < key x then y else x)"
  define t where "t = min_from key b ys"
  have t: "min_from key x (y # ys) = t" by (simp add: t_def b_def)
  from Cons [of b] obtain pre post where
    split: "b # ys = pre @ t # post"
    and before: "\<forall>u\<in>set pre. key t < key u"
    and after: "\<forall>u\<in>set post. key t \<le> key u"
    unfolding t_def by blast
  have bx: "key b \<le> key x" and "key b \<le> key y" by (simp_all add: b_def)
  show ?case
  proof (cases pre)
    case Nil
    with split have tb: "t = b" and post: "post = ys" by simp_all
    show ?thesis
    proof (cases "key y < key x")
      case True
      with tb have ty: "t = y" by (simp add: b_def)
      have "x # y # ys = [x] @ t # ys" using ty by simp
      moreover have "\<forall>u\<in>set [x]. key t < key u" using ty True by simp
      moreover have "\<forall>u\<in>set ys. key t \<le> key u" using after post by simp
      ultimately show ?thesis unfolding t by blast
    next
      case False
      with tb have tx: "t = x" by (simp add: b_def)
      have "x # y # ys = [] @ t # (y # ys)" using tx by simp
      moreover have "\<forall>u\<in>set (y # ys). key t \<le> key u"
        using after post tx False by auto
      moreover have "\<forall>u\<in>set ([] :: 'a list). key t < key u" by simp
      ultimately show ?thesis unfolding t by blast
    qed
  next
    case (Cons b' pre')
    with split have b: "b' = b" and ys: "ys = pre' @ t # post" by simp_all
    from before Cons b have lt: "key t < key b" by simp
    have "x # y # ys = (x # y # pre') @ t # post" using ys by simp
    moreover have "\<forall>u\<in>set (x # y # pre'). key t < key u"
      using before Cons lt bx \<open>key b \<le> key y\<close> by auto
    ultimately show ?thesis unfolding t using after by blast
  qed
qed






lemma closest_in_domain:
  assumes "- 180 \<le> s" "s \<le> 180" "0 \<le> d" "d \<le> 180"
  shows "py_min (\<lambda>t. \<bar>s - t\<bar>) (aspect_targets d) = Inr (if 0 \<le> s then d else - d)"
proof -
  let ?k = "\<lambda>t. \<bar>s - t\<bar>"
  have pos: "min_from ?k d xs = d"
    if "0 \<le> s" "set xs \<subseteq> {- d, d - 360, - d + 360}" for xs
  proof (rule min_from_keep, rule ballI)
    fix y assume "y \<in> set xs"
    with that have "y = - d \<or> y = d - 360 \<or> y = - d + 360" by auto
    with assms that(1) show "\<not> \<bar>s - y\<bar> < \<bar>s - d\<bar>" by auto
  qed
  have neg: "min_from ?k d (- d # xs) = - d"
    if "s < 0" "set xs \<subseteq> {d - 360, - d + 360}" for xs
  proof -
    have keep: "min_from ?k (- d) xs = - d"
    proof (rule min_from_keep, rule ballI)
      fix y assume "y \<in> set xs"
      with that have "y = d - 360 \<or> y = - d + 360" by auto
      with assms that(1) show "\<not> \<bar>s - y\<bar> < \<bar>s - (- d)\<bar>" by auto
    qed
    show ?thesis
    proof (cases "d = 0")
      case True
      with keep show ?thesis by simp
    next
      case False
      with assms that(1) have "?k (- d) < ?k d" by auto
      then have "min_from ?k d (- d # xs) = min_from ?k (- d) xs" by (rule min_from_take)
      with keep show ?thesis by simp
    qed
  qed
  show ?thesis
  proof (cases "0 \<le> s")
    case True
    have "min_from ?k d [- d, d - 360, - d + 360] = d" "min_from ?k d [- d] = d"
      by (rule pos; use True in simp)+
    with True show ?thesis unfolding py_min_aspect_targets by (simp del: min_from.simps)
  next
    case False
    then have "s < 0" by simp
    have "min_from ?k d [- d, d - 360, - d + 360] = - d" "min_from ?k d [- d] = - d"
      by (rule neg; use \<open>s < 0\<close> in simp)+
    with False show ?thesis unfolding py_min_aspect_targets by (simp del: min_from.simps)
  qed
qed

section \<open>Claims about the geometry kernel\<close>

text \<open>
  C3 (amended). The two loops leave every angle in the closed range [-180, 180]:
  180 stays 180 and -180 stays -180. Adding a whole number of turns does not change
  the result as long as that result is not one of the two boundary values.
\<close>

theorem normalize_signed_range_periodic:
  "- 180 \<le> normalize_signed a \<and> normalize_signed a \<le> 180
   \<and> normalize_signed 180 = 180 \<and> normalize_signed (- 180) = - 180
   \<and> (\<bar>normalize_signed a\<bar> < 180 \<longrightarrow>
        normalize_signed (a + 360 * of_int k) = normalize_signed a)"
  using normalize_signed_bounds [of a] normalize_signed_periodic [of a k]
  by (simp add: normalize_signed_id)

theorem normalize_signed_range_periodic_witness:
  "\<bar>normalize_signed 450\<bar> < 180
   \<and> normalize_signed (450 + 360 * of_int (- 3)) = normalize_signed 450
   \<and> normalize_signed 450 = 90"
  using normalize_signed_range_periodic [of 450 "- 3"]
  by (simp add: normalize_signed_def wrap_down.simps wrap_up.simps)

text \<open>
  C3 as stated fails at -180: the first loop does not run (-180 is not above 180), nor
  does the second (-180 is not below -180), so -180 is returned, and one more turn
  gives a different value.
\<close>

theorem normalize_signed_minus_180_counterexample:
  "normalize_signed (- 180) = - 180 \<and> normalize_signed (- 180) \<noteq> 180
   \<and> normalize_signed (- 180 + 360 * of_int 1) \<noteq> normalize_signed (- 180)"
  by (simp add: normalize_signed_def wrap_down.simps wrap_up.simps)

text \<open>
  C4 (amended). The target list is not reduced: for 0 it holds the single value 0, for
  180 the two values 180 and -180, and for an aspect strictly between 0 and 180 four
  distinct values, of which exactly \<open>d\<close> and \<open>-d\<close> lie in (-180, 180].
\<close>

theorem aspect_targets_values:
  "(d = 0 \<longrightarrow> set (aspect_targets d) = {0})
   \<and> (d = 180 \<longrightarrow> set (aspect_targets d) = {180, - 180})
   \<and> (0 < d \<and> d < 180 \<longrightarrow>
        aspect_targets d = [d, - d, d - 360, - d + 360]
        \<and> distinct (aspect_targets d)
        \<and> card (set (aspect_targets d)) = 4
        \<and> {t \<in> set (aspect_targets d). - 180 < t \<and> t \<le> 180} = {d, - d}
        \<and> d \<noteq> - d)"
proof (intro conjI impI)
  assume "d = 0"
  then show "set (aspect_targets d) = {0}" by (simp add: aspect_targets_def)
next
  assume "d = 180"
  then show "set (aspect_targets d) = {180, - 180}" by (simp add: aspect_targets_def)
next
  assume d: "0 < d \<and> d < 180"
  then show l: "aspect_targets d = [d, - d, d - 360, - d + 360]"
    by (simp add: aspect_targets_def)
  from d show dist: "distinct (aspect_targets d)" unfolding l by auto
  from dist show "card (set (aspect_targets d)) = 4"
    unfolding l by (simp only: distinct_card) simp
  from d show "{t \<in> set (aspect_targets d). - 180 < t \<and> t \<le> 180} = {d, - d}"
    unfolding l by auto
  from d show "d \<noteq> - d" by simp
qed

theorem aspect_targets_values_witness:
  "(0 < (90::real) \<and> (90::real) < 180)
   \<and> aspect_targets 90 = [90, - 90, - 270, 270]
   \<and> set (aspect_targets 0) = {0}
   \<and> set (aspect_targets 180) = {180, - 180}"
  using aspect_targets_values [of 90] aspect_targets_values [of 0] aspect_targets_values [of 180]
  by simp

theorem aspect_targets_square_counterexample:
  "card (set (aspect_targets 90)) \<noteq> 2
   \<and> \<not> set (aspect_targets 90) \<subseteq> {t. - 180 < t \<and> t \<le> 180}"
proof -
  have l: "aspect_targets 90 = [90, - 90, - 270, 270]" by (simp add: aspect_targets_def)
  have "distinct (aspect_targets 90)" unfolding l by simp
  then have "card (set (aspect_targets 90)) = 4" unfolding l by (simp only: distinct_card) simp
  moreover have "- 270 \<in> set (aspect_targets 90)" unfolding l by simp
  ultimately show ?thesis by auto
qed

text \<open>
  C6 (amended). Whatever key the caller passes, the closest target is the first
  candidate of the list \<open>[d, -d, d - 360, -d + 360]\<close> whose key is minimal: every candidate
  before it has a strictly larger key, none after it a smaller one. Ties therefore go
  by list order, not by sign: at separation 0 the result is \<open>d\<close> itself for every aspect
  in [0, 180].
\<close>

theorem closest_target_first_in_list:
  "(\<exists>t pre post. py_min key (aspect_targets d) = Inr t
        \<and> aspect_targets d = pre @ t # post
        \<and> (\<forall>u \<in> set pre. key t < key u)
        \<and> (\<forall>u \<in> set post. key t \<le> key u))
   \<and> (0 \<le> d \<and> d \<le> 180 \<longrightarrow> py_min (\<lambda>t. \<bar>0 - t\<bar>) (aspect_targets d) = Inr d)"
proof (intro conjI impI)
  obtain x xs where l: "aspect_targets d = x # xs"
    by (cases "aspect_targets d") (auto simp: aspect_targets_def Let_def split: if_splits)
  have m: "py_min key (aspect_targets d) = Inr (min_from key x xs)" by (simp add: l)
  from min_from_first [of x xs key] obtain pre post where
    "x # xs = pre @ min_from key x xs # post"
    "\<forall>u\<in>set pre. key (min_from key x xs) < key u"
    "\<forall>u\<in>set post. key (min_from key x xs) \<le> key u"
    by blast
  with m l show "\<exists>t pre post. py_min key (aspect_targets d) = Inr t
        \<and> aspect_targets d = pre @ t # post
        \<and> (\<forall>u \<in> set pre. key t < key u)
        \<and> (\<forall>u \<in> set post. key t \<le> key u)"
    by metis
next
  assume "0 \<le> d \<and> d \<le> 180"
  then show "py_min (\<lambda>t. \<bar>0 - t\<bar>) (aspect_targets d) = Inr d"
    using closest_in_domain [of 0 d] by simp
qed

theorem closest_target_first_in_list_witness:
  "aspect_targets 120 = [] @ 120 # [- 120, - 240, 240]
   \<and> \<bar>180 - 120\<bar> = \<bar>180 - (240 :: real)\<bar>
   \<and> py_min (\<lambda>t. \<bar>180 - t\<bar>) (aspect_targets 120) = Inr 120
   \<and> (0 \<le> (90 :: real) \<and> (90 :: real) \<le> 180)
   \<and> py_min (\<lambda>t. \<bar>0 - t\<bar>) (aspect_targets 90) = Inr 90"
  using closest_target_first_in_list [of "\<lambda>t. \<bar>180 - t\<bar>" 120]
    closest_target_first_in_list [of "\<lambda>t. \<bar>0 - t\<bar>" 90]
  by (simp add: aspect_targets_def)

text \<open>
  C6 as stated fails at separation 0 for the square: 90 and -90 are equally close,
  neither has the sign of the separation, and the answer follows the order of the
  list (reversing the list reverses the answer).
\<close>

theorem closest_target_tie_counterexample:
  "py_min (\<lambda>t. \<bar>0 - t\<bar>) (aspect_targets 90) = Inr 90
   \<and> \<bar>0 - (90::real)\<bar> = \<bar>0 - (- 90 :: real)\<bar>
   \<and> sgn (90::real) \<noteq> sgn 0
   \<and> py_min (\<lambda>t. \<bar>0 - t\<bar>) (rev (aspect_targets 90)) = Inr (- 90)"
  by (simp add: aspect_targets_def)

section \<open>The classifications in closed form\<close>

lemma closest_exists: "\<exists>c. py_min key (aspect_targets d) = Inr c"
  by (simp add: py_min_aspect_targets)

lemma authoritative_trend_Inr:
  assumes "py_min (\<lambda>t. \<bar>normalize_signed (longitude m - longitude p) - t\<bar>)
             (aspect_targets (degrees a)) = Inr c"
  shows "authoritative_trend m p a =
    Inr \<lparr>separation = normalize_signed (longitude m - longitude p),
         closest_target = c,
         current_orb = \<bar>normalize_signed (longitude m - longitude p) - c\<bar>,
         relative_speed = speed m - speed p,
         future_separation =
           normalize_signed (normalize_signed (longitude m - longitude p) + (speed m - speed p) * 0.1),
         future_orb =
           \<bar>normalize_signed (normalize_signed (longitude m - longitude p) + (speed m - speed p) * 0.1) - c\<bar>\<rparr>"
  using assms by (simp add: authoritative_trend_def Let_def)

lemma current_system_trend_lead:
  assumes "\<bar>ms\<bar> > \<bar>ps\<bar>"
    and "py_min (\<lambda>t. \<bar>normalize_signed (ml - pl) - t\<bar>) (aspect_targets d) = Inr c"
  shows "current_system_trend ml pl ms ps d =
    Inr \<lparr>separation = normalize_signed (ml - pl),
         closest_target = c,
         current_orb = \<bar>normalize_signed (ml - pl) - c\<bar>,
         relative_speed = ms - ps,
         future_separation = normalize_signed (normalize_signed (ml - pl) + (ms - ps) * 0.1),
         future_orb = \<bar>normalize_signed (normalize_signed (ml - pl) + (ms - ps) * 0.1) - c\<bar>\<rparr>"
  using assms by (simp add: current_system_trend_def Let_def)

lemma current_system_trend_swap:
  assumes "\<not> \<bar>ms\<bar> > \<bar>ps\<bar>"
    and "py_min (\<lambda>t. \<bar>normalize_signed (pl - ml) - t\<bar>) (aspect_targets d) = Inr c"
  shows "current_system_trend ml pl ms ps d =
    Inr \<lparr>separation = normalize_signed (pl - ml),
         closest_target = c,
         current_orb = \<bar>normalize_signed (pl - ml) - c\<bar>,
         relative_speed = ps - ms,
         future_separation = normalize_signed (normalize_signed (pl - ml) + (ps - ms) * 0.1),
         future_orb = \<bar>normalize_signed (normalize_signed (pl - ml) + (ps - ms) * 0.1) - c\<bar>\<rparr>"
  using assms by (simp add: current_system_trend_def Let_def)

lemma current_system_trend_total: "\<exists>r. current_system_trend ml pl ms ps d = Inr r"
proof (cases "\<bar>ms\<bar> > \<bar>ps\<bar>")
  case True
  obtain c where "py_min (\<lambda>t. \<bar>normalize_signed (ml - pl) - t\<bar>) (aspect_targets d) = Inr c"
    using closest_exists by blast
  from current_system_trend_lead [OF True this] show ?thesis by blast
next
  case False
  obtain c where "py_min (\<lambda>t. \<bar>normalize_signed (pl - ml) - t\<bar>) (aspect_targets d) = Inr c"
    using closest_exists by blast
  from current_system_trend_swap [OF False this] show ?thesis by blast
qed

lemma authoritative_trend_total: "\<exists>r. authoritative_trend m p a = Inr r"
proof -
  obtain c where "py_min (\<lambda>t. \<bar>normalize_signed (longitude m - longitude p) - t\<bar>)
      (aspect_targets (degrees a)) = Inr c"
    using closest_exists by blast
  from authoritative_trend_Inr [OF this] show ?thesis by blast
qed





lemma authoritative_trend_eval:
  assumes "normalize_signed (longitude m - longitude p) = s"
    and "py_min (\<lambda>t. \<bar>s - t\<bar>) (aspect_targets (degrees a)) = Inr c"
    and "normalize_signed (s + (speed m - speed p) * 0.1) = f"
  shows "authoritative_trend m p a =
    Inr \<lparr>separation = s, closest_target = c, current_orb = \<bar>s - c\<bar>,
         relative_speed = speed m - speed p, future_separation = f,
         future_orb = \<bar>f - c\<bar>\<rparr>"
  using assms by (simp add: authoritative_trend_def Let_def)

lemma current_system_trend_eval_lead:
  assumes "\<bar>ms\<bar> > \<bar>ps\<bar>"
    and "normalize_signed (ml - pl) = s"
    and "py_min (\<lambda>t. \<bar>s - t\<bar>) (aspect_targets d) = Inr c"
    and "normalize_signed (s + (ms - ps) * 0.1) = f"
  shows "current_system_trend ml pl ms ps d =
    Inr \<lparr>separation = s, closest_target = c, current_orb = \<bar>s - c\<bar>,
         relative_speed = ms - ps, future_separation = f, future_orb = \<bar>f - c\<bar>\<rparr>"
  using assms by (simp add: current_system_trend_def Let_def)

lemma current_system_trend_eval_swap:
  assumes "\<not> \<bar>ms\<bar> > \<bar>ps\<bar>"
    and "normalize_signed (pl - ml) = s"
    and "py_min (\<lambda>t. \<bar>s - t\<bar>) (aspect_targets d) = Inr c"
    and "normalize_signed (s + (ps - ms) * 0.1) = f"
  shows "current_system_trend ml pl ms ps d =
    Inr \<lparr>separation = s, closest_target = c, current_orb = \<bar>s - c\<bar>,
         relative_speed = ps - ms, future_separation = f, future_orb = \<bar>f - c\<bar>\<rparr>"
  using assms by (simp add: current_system_trend_def Let_def)

lemma derivative_trend_eval:
  assumes "normalize_signed (ml - pl) = s"
    and "py_min (\<lambda>t. \<bar>s - t\<bar>) (aspect_targets d) = Inr c"
  shows "derivative_trend ml pl ms ps d =
    Inr \<lparr>separation = s, closest_target = c, current_orb = \<bar>s - c\<bar>,
         relative_speed = ms - ps, future_separation = s + (ms - ps) * 0.1,
         future_orb = \<bar>s + (ms - ps) * 0.1 - c\<bar>\<rparr>"
  using assms by (simp add: derivative_trend_def Let_def)


section \<open>Claims about the classifications\<close>





















text \<open>
  C7. When the signed separation equals the closest target, the current orb is 0 and
  each method returns \<open>False\<close> as a value (no error): a projected orb is an absolute
  value and cannot be below 0.
\<close>

theorem exact_aspect_not_applying:
  "(authoritative_trend m p a = Inr r \<and> separation r = closest_target r \<longrightarrow>
      current_orb r = 0 \<and> calculate_authoritative_applying m p a = Inr False)
   \<and> (current_system_trend ml pl ms ps d = Inr r' \<and> separation r' = closest_target r' \<longrightarrow>
      current_orb r' = 0 \<and> analyze_current_system_logic ml pl ms ps d = Inr False)
   \<and> (derivative_trend ml pl ms ps d = Inr r'' \<and> separation r'' = closest_target r'' \<longrightarrow>
      current_orb r'' = 0 \<and> derivative_applying ml pl ms ps d = Inr False)"
proof (intro conjI impI; elim conjE)
  assume t: "authoritative_trend m p a = Inr r" and eq: "separation r = closest_target r"
  obtain c where c: "py_min (\<lambda>t. \<bar>normalize_signed (longitude m - longitude p) - t\<bar>)
      (aspect_targets (degrees a)) = Inr c"
    using closest_exists by blast
  from authoritative_trend_eval [OF refl c refl] t eq
  show "current_orb r = 0" by auto
  then show "calculate_authoritative_applying m p a = Inr False"
    using authoritative_trend_eval [OF refl c refl] t
    by (auto simp: calculate_authoritative_applying_def)
next
  assume t: "current_system_trend ml pl ms ps d = Inr r'" and eq: "separation r' = closest_target r'"
  show "current_orb r' = 0"
  proof (cases "\<bar>ms\<bar> > \<bar>ps\<bar>")
    case True
    obtain c where c: "py_min (\<lambda>t. \<bar>normalize_signed (ml - pl) - t\<bar>) (aspect_targets d) = Inr c"
      using closest_exists by blast
    from current_system_trend_eval_lead [OF True refl c refl] t eq show ?thesis by auto
  next
    case False
    obtain c where c: "py_min (\<lambda>t. \<bar>normalize_signed (pl - ml) - t\<bar>) (aspect_targets d) = Inr c"
      using closest_exists by blast
    from current_system_trend_eval_swap [OF False refl c refl] t eq show ?thesis by auto
  qed
  moreover have "0 \<le> future_orb r'"
  proof (cases "\<bar>ms\<bar> > \<bar>ps\<bar>")
    case True
    obtain c where c: "py_min (\<lambda>t. \<bar>normalize_signed (ml - pl) - t\<bar>) (aspect_targets d) = Inr c"
      using closest_exists by blast
    from current_system_trend_eval_lead [OF True refl c refl] t show ?thesis by auto
  next
    case False
    obtain c where c: "py_min (\<lambda>t. \<bar>normalize_signed (pl - ml) - t\<bar>) (aspect_targets d) = Inr c"
      using closest_exists by blast
    from current_system_trend_eval_swap [OF False refl c refl] t show ?thesis by auto
  qed
  ultimately show "analyze_current_system_logic ml pl ms ps d = Inr False"
    using t by (simp add: analyze_current_system_logic_def)
next
  assume t: "derivative_trend ml pl ms ps d = Inr r''" and eq: "separation r'' = closest_target r''"
  obtain c where c: "py_min (\<lambda>t. \<bar>normalize_signed (ml - pl) - t\<bar>) (aspect_targets d) = Inr c"
    using closest_exists by blast
  from derivative_trend_eval [OF refl c] t eq
  show "current_orb r'' = 0" by auto
  then show "derivative_applying ml pl ms ps d = Inr False"
    using derivative_trend_eval [OF refl c] t
    by (auto simp: derivative_applying_def)
qed

theorem exact_aspect_not_applying_witness:
  "authoritative_trend \<lparr>longitude = 120, speed = 13\<rparr> \<lparr>longitude = 0, speed = 1\<rparr> \<lparr>degrees = 120\<rparr>
     = Inr \<lparr>separation = 120, closest_target = 120, current_orb = 0,
            relative_speed = 12, future_separation = 121.2, future_orb = 1.2\<rparr>
   \<and> calculate_authoritative_applying \<lparr>longitude = 120, speed = 13\<rparr>
        \<lparr>longitude = 0, speed = 1\<rparr> \<lparr>degrees = 120\<rparr> = Inr False
   \<and> current_system_trend 120 0 13 1 120
     = Inr \<lparr>separation = 120, closest_target = 120, current_orb = 0,
            relative_speed = 12, future_separation = 121.2, future_orb = 1.2\<rparr>
   \<and> analyze_current_system_logic 120 0 13 1 120 = Inr False
   \<and> derivative_trend 120 0 13 1 120
     = Inr \<lparr>separation = 120, closest_target = 120, current_orb = 0,
            relative_speed = 12, future_separation = 121.2, future_orb = 1.2\<rparr>
   \<and> derivative_applying 120 0 13 1 120 = Inr False"
proof -
  let ?m = "\<lparr>longitude = 120, speed = 13\<rparr>" and ?p = "\<lparr>longitude = 0, speed = 1\<rparr>"
  let ?a = "\<lparr>degrees = 120\<rparr>"
  let ?r = "\<lparr>separation = 120, closest_target = 120, current_orb = 0,
            relative_speed = 12, future_separation = 121.2, future_orb = 1.2\<rparr>"
  have a: "authoritative_trend ?m ?p ?a = Inr ?r"
    using authoritative_trend_eval
      [where m = ?m and p = ?p and a = ?a and s = 120 and c = 120 and f = "121.2"]
    by (simp add: normalize_signed_id aspect_targets_def)
  have e: "current_system_trend 120 0 13 1 120 = Inr ?r"
    using current_system_trend_eval_lead
      [where ml = 120 and pl = 0 and ms = 13 and ps = 1 and d = 120 and s = 120 and c = 120
         and f = "121.2"]
    by (simp add: normalize_signed_id aspect_targets_def)
  have d: "derivative_trend 120 0 13 1 120 = Inr ?r"
    using derivative_trend_eval
      [where ml = 120 and pl = 0 and ms = 13 and ps = 1 and d = 120 and s = 120 and c = 120]
    by (simp add: normalize_signed_id aspect_targets_def)
  from exact_aspect_not_applying
    [where m = ?m and p = ?p and a = ?a and r = ?r and ml = 120 and pl = 0 and ms = 13
       and ps = 1 and d = 120 and r' = ?r and r'' = ?r] a e d
  show ?thesis by simp
qed

text \<open>
  C8. When the two speeds are equal (in particular when both are 0) the relative speed
  is 0, the projected separation is the current one, and each method returns \<open>False\<close>
  as a value.
\<close>

theorem equal_speeds_not_applying:
  "(speed m = speed p \<longrightarrow> calculate_authoritative_applying m p a = Inr False)
   \<and> (ms = ps \<longrightarrow> analyze_current_system_logic ml pl ms ps d = Inr False
                  \<and> derivative_applying ml pl ms ps d = Inr False)"
proof (intro conjI impI)
  assume v: "speed m = speed p"
  obtain c where c: "py_min (\<lambda>t. \<bar>normalize_signed (longitude m - longitude p) - t\<bar>)
      (aspect_targets (degrees a)) = Inr c"
    using closest_exists by blast
  from authoritative_trend_eval [OF refl c refl] v
  show "calculate_authoritative_applying m p a = Inr False"
    by (simp add: calculate_authoritative_applying_def normalize_signed_idem)
next
  assume v: "ms = ps"
  then have sw: "\<not> \<bar>ms\<bar> > \<bar>ps\<bar>" by simp
  obtain c where c: "py_min (\<lambda>t. \<bar>normalize_signed (pl - ml) - t\<bar>) (aspect_targets d) = Inr c"
    using closest_exists by blast
  from current_system_trend_eval_swap [OF sw refl c refl] v
  show "analyze_current_system_logic ml pl ms ps d = Inr False"
    by (simp add: analyze_current_system_logic_def normalize_signed_idem)
next
  assume v: "ms = ps"
  obtain c where c: "py_min (\<lambda>t. \<bar>normalize_signed (ml - pl) - t\<bar>) (aspect_targets d) = Inr c"
    using closest_exists by blast
  from derivative_trend_eval [OF refl c] v
  show "derivative_applying ml pl ms ps d = Inr False"
    by (simp add: derivative_applying_def)
qed

theorem equal_speeds_not_applying_witness:
  "speed \<lparr>longitude = 10, speed = 0\<rparr> = speed \<lparr>longitude = 95, speed = 0\<rparr>
   \<and> calculate_authoritative_applying \<lparr>longitude = 10, speed = 0\<rparr>
        \<lparr>longitude = 95, speed = 0\<rparr> \<lparr>degrees = 90\<rparr> = Inr False
   \<and> analyze_current_system_logic 10 95 0 0 90 = Inr False
   \<and> derivative_applying 10 95 0 0 90 = Inr False"
  using equal_speeds_not_applying
    [where m = "\<lparr>longitude = 10, speed = 0\<rparr>" and p = "\<lparr>longitude = 95, speed = 0\<rparr>"
       and a = "\<lparr>degrees = 90\<rparr>" and ml = 10 and pl = 95 and ms = 0 and ps = 0 and d = 90]
  by simp

text \<open>
  C9. Scenario 1 (Moon and Venus of the AE-016 chart, trine): the separation is about
  82.90, the closest target is 120, the current orb about 37.10, the projected orb
  about 36.02 (each within 0.01), and the result is applying.
\<close>

theorem scenario_one_applying:
  "current_system_trend 299.5956 216.6997 11.9326 1.1759 120
     = Inr \<lparr>separation = 82.8959, closest_target = 120, current_orb = 37.1041,
            relative_speed = 10.7567, future_separation = 83.97157, future_orb = 36.02843\<rparr>
   \<and> (case current_system_trend 299.5956 216.6997 11.9326 1.1759 120 of
         Inl e \<Rightarrow> False
       | Inr r \<Rightarrow> \<bar>separation r - 82.90\<bar> < 0.01 \<and> closest_target r = 120
                 \<and> \<bar>current_orb r - 37.10\<bar> < 0.01 \<and> \<bar>relative_speed r - 10.757\<bar> < 0.01
                 \<and> \<bar>future_separation r - 83.98\<bar> < 0.01 \<and> \<bar>future_orb r - 36.02\<bar> < 0.01)
   \<and> analyze_current_system_logic 299.5956 216.6997 11.9326 1.1759 120 = Inr True
   \<and> calculate_authoritative_applying \<lparr>longitude = 299.5956, speed = 11.9326\<rparr>
        \<lparr>longitude = 216.6997, speed = 1.1759\<rparr> \<lparr>degrees = 120\<rparr> = Inr True"
proof -
  have e: "current_system_trend 299.5956 216.6997 11.9326 1.1759 120
     = Inr \<lparr>separation = 82.8959, closest_target = 120, current_orb = 37.1041,
            relative_speed = 10.7567, future_separation = 83.97157, future_orb = 36.02843\<rparr>"
    using current_system_trend_eval_lead
      [where ml = "299.5956" and pl = "216.6997" and ms = "11.9326" and ps = "1.1759"
         and d = 120 and s = "82.8959" and c = 120 and f = "83.97157"]
    by (simp add: normalize_signed_id aspect_targets_def)
  have a: "authoritative_trend \<lparr>longitude = 299.5956, speed = 11.9326\<rparr>
        \<lparr>longitude = 216.6997, speed = 1.1759\<rparr> \<lparr>degrees = 120\<rparr>
     = Inr \<lparr>separation = 82.8959, closest_target = 120, current_orb = 37.1041,
            relative_speed = 10.7567, future_separation = 83.97157, future_orb = 36.02843\<rparr>"
    using authoritative_trend_eval
      [where m = "\<lparr>longitude = 299.5956, speed = 11.9326\<rparr>"
         and p = "\<lparr>longitude = 216.6997, speed = 1.1759\<rparr>"
         and a = "\<lparr>degrees = 120\<rparr>" and s = "82.8959" and c = 120 and f = "83.97157"]
    by (simp add: normalize_signed_id aspect_targets_def)
  show ?thesis
    unfolding analyze_current_system_logic_def calculate_authoritative_applying_def e a
    by simp
qed

text \<open>
  C10. Over the reals both normalisation loops stop: the while combinator, which is
  \<open>None\<close> for a loop that runs forever, returns the value of the recursive function for
  each of them. With \<open>min\<close> always applied to a non-empty list, each classification
  returns a boolean and never an error.
\<close>

theorem classification_total:
  "while_option (\<lambda>y. 180 < y) (\<lambda>y. y - 360) x = Some (wrap_down x)
   \<and> while_option (\<lambda>y. y < - 180) (\<lambda>y. y + 360) x = Some (wrap_up x)
   \<and> (\<exists>b. calculate_authoritative_applying m p a = Inr b)
   \<and> (\<exists>b. analyze_current_system_logic ml pl ms ps d = Inr b)
   \<and> (\<exists>b. derivative_applying ml pl ms ps d = Inr b)"
proof (intro conjI)
  show "while_option (\<lambda>y. 180 < y) (\<lambda>y. y - 360) x = Some (wrap_down x)"
  proof (induction x rule: wrap_down.induct)
    case (1 x)
    then show ?case
      by (subst while_option_unfold, subst wrap_down.simps) simp
  qed
  show "while_option (\<lambda>y. y < - 180) (\<lambda>y. y + 360) x = Some (wrap_up x)"
  proof (induction x rule: wrap_up.induct)
    case (1 x)
    then show ?case
      by (subst while_option_unfold, subst wrap_up.simps) simp
  qed
  show "\<exists>b. calculate_authoritative_applying m p a = Inr b"
    using authoritative_trend_total [of m p a]
    by (auto simp: calculate_authoritative_applying_def)
  show "\<exists>b. analyze_current_system_logic ml pl ms ps d = Inr b"
    using current_system_trend_total [of ml pl ms ps d]
    by (auto simp: analyze_current_system_logic_def)
  obtain c where c: "py_min (\<lambda>t. \<bar>normalize_signed (ml - pl) - t\<bar>) (aspect_targets d) = Inr c"
    using closest_exists by blast
  from derivative_trend_eval [OF refl c]
  show "\<exists>b. derivative_applying ml pl ms ps d = Inr b"
    by (simp add: derivative_applying_def)
qed

end
